theory Spec2Isabelle
  imports Complex_Main "HOL-Library.Multiset"
begin

section \<open>Invoice data and arithmetic (invoice_utils.py)\<close>

text \<open>
  The invoice workflows of Part-3 share one utility module. Its data classes become
  records, its dictionaries finite maps from key strings, and Python's \<open>float\<close> is
  read as \<^typ>\<open>real\<close>: the claims below relate the results of the arithmetic
  expressions to each other and compare amounts, they never depend on rounding.
\<close>

datatype py_error = KeyError | StopIteration | EOFError

record InvoiceData =
  invoice_id :: string
  client_name :: string
  client_email :: string
  is_preferred :: bool
  item_description :: string
  quantity :: int
  unit_price :: real
  date :: string

text \<open>The \<open>subtotal\<close> property of \<open>InvoiceData\<close>: \<open>quantity * unit_price\<close>.\<close>

definition subtotal :: "InvoiceData \<Rightarrow> real" where
  "subtotal invoice = of_int (quantity invoice) * unit_price invoice"

record InvoiceConfig =
  tax_rate :: real
  high_value_threshold :: real
  high_value_discount :: real
  preferred_client_discount :: real
  company_name :: string
  company_address :: string

text \<open>
  \<open>InvoiceConfig()\<close> reads six environment variables; with none of them set it
  holds the defaults written in \<open>__init__\<close>.
\<close>

definition default_config :: InvoiceConfig where
  "default_config =
     \<lparr>tax_rate = 10 / 100, high_value_threshold = 5000, high_value_discount = 5 / 100,
      preferred_client_discount = 3 / 100, company_name = ''TechServices Inc.'',
      company_address = ''123 Business St, Tech City, TC 12345''\<rparr>"

type_synonym totals = "string \<rightharpoonup> real"

text \<open>\<open>d[k]\<close> raises \<open>KeyError\<close> on a missing key; \<open>d.get(k, default)\<close> does not.\<close>

definition dict_item :: "('k \<rightharpoonup> 'v) \<Rightarrow> 'k \<Rightarrow> py_error + 'v" where
  "dict_item d k = (case d k of None \<Rightarrow> Inl KeyError | Some v \<Rightarrow> Inr v)"

definition dict_get :: "('k \<rightharpoonup> 'v) \<Rightarrow> 'k \<Rightarrow> 'v \<Rightarrow> 'v" where
  "dict_get d k dflt = (case d k of None \<Rightarrow> dflt | Some v \<Rightarrow> v)"

definition calculate_invoice_totals :: "InvoiceData \<Rightarrow> InvoiceConfig \<Rightarrow> totals" where
  "calculate_invoice_totals invoice config =
     (let sub = subtotal invoice;
          hv_discount =
            (if sub \<ge> high_value_threshold config then sub * high_value_discount config else 0);
          pref_discount =
            (if is_preferred invoice then sub * preferred_client_discount config else 0);
          total_discount = hv_discount + pref_discount;
          amount_after_discount = sub - total_discount;
          tax = amount_after_discount * tax_rate config;
          total = amount_after_discount + tax
      in [''subtotal'' \<mapsto> sub,
          ''high_value_discount'' \<mapsto> hv_discount,
          ''preferred_discount'' \<mapsto> pref_discount,
          ''total_discount'' \<mapsto> total_discount,
          ''amount_after_discount'' \<mapsto> amount_after_discount,
          ''tax'' \<mapsto> tax,
          ''total'' \<mapsto> total])"

section \<open>Console selection shared by the workflows\<close>

text \<open>
  Every workflow script lets the user pick one invoice with \<open>show_menu\<close>. The lines
  typed at the prompt are the model's input: each is what \<open>int(choice)\<close> makes of it,
  \<open>Some idx\<close>, or \<open>None\<close> when it raises \<open>ValueError\<close>. The loop asks again until an
  index in range arrives; when the input ends first, \<open>input\<close> raises \<open>EOFError\<close>.
  Printing, the "press ENTER" prompts and the log file are not modelled.
\<close>

type_synonym stdin = "int option list"

fun show_menu :: "InvoiceData list \<Rightarrow> stdin \<Rightarrow> py_error + string" where
  "show_menu invoices [] = Inl EOFError"
| "show_menu invoices (None # rest) = show_menu invoices rest"
| "show_menu invoices (Some idx # rest) =
     (if 1 \<le> idx \<and> idx \<le> int (length invoices)
      then Inr (invoice_id (invoices ! nat (idx - 1)))
      else show_menu invoices rest)"

text \<open>
  \<open>next(inv for inv in all_invoices if inv.invoice_id == selected_invoice_id)\<close>:
  the first invoice with that id, \<open>StopIteration\<close> when there is none.
\<close>

definition next_invoice :: "InvoiceData list \<Rightarrow> string \<Rightarrow> py_error + InvoiceData" where
  "next_invoice all_invoices sel =
     (case find (\<lambda>iv. invoice_id iv = sel) all_invoices of
        None \<Rightarrow> Inl StopIteration | Some iv \<Rightarrow> Inr iv)"

text \<open>
  Each script keeps one module-level variable, \<open>selected_invoice_id\<close>, initially
  \<open>None\<close>; a handler that declares it \<open>global\<close> assigns the module's variable.
\<close>

record module_globals =
  selected_invoice_id :: "string option"

definition initial_globals :: module_globals where
  "initial_globals = \<lparr>selected_invoice_id = None\<rparr>"

section \<open>The branching workflow (new_18_branching_workflow.py)\<close>

subsection \<open>Files\<close>

text \<open>
  The file system is a map from path strings to file contents. \<open>OUTPUT_DIR\<close> and
  \<open>ARCHIVE_DIR\<close> are the directories \<open>output\<close> and \<open>archive\<close> beside the script
  (paths are written relative to the script's directory). A path names a file by its
  string; links and path normalisation are not modelled.
\<close>

type_synonym filesystem = "string \<rightharpoonup> string"

definition OUTPUT_DIR :: string where "OUTPUT_DIR = ''output''"
definition ARCHIVE_DIR :: string where "ARCHIVE_DIR = ''archive''"

text \<open>\<open>os.path.join\<close> of two components: an absolute second component replaces the first.\<close>

definition os_path_join :: "string \<Rightarrow> string \<Rightarrow> string" where
  "os_path_join a b =
     (if b \<noteq> [] \<and> hd b = CHR ''/'' then b
      else if a = [] \<or> last a = CHR ''/'' then a @ b
      else a @ ''/'' @ b)"

definition path_exists :: "filesystem \<Rightarrow> string \<Rightarrow> bool" where
  "path_exists fs p = (fs p \<noteq> None)"

text \<open>\<open>shutil.move(src, dst)\<close> of an existing file: the content leaves \<open>src\<close> for \<open>dst\<close>.\<close>

definition shutil_move :: "filesystem \<Rightarrow> string \<Rightarrow> string \<Rightarrow> filesystem" where
  "shutil_move fs src dst = (fs(src := None))(dst := fs src)"

text \<open>
  \<open>archive_old_invoice\<close>; \<open>timestamp\<close> is what
  \<open>datetime.now().strftime("%Y%m%d_%H%M%S")\<close> returns at the call.
\<close>

definition archive_old_invoice ::
  "filesystem \<Rightarrow> string \<Rightarrow> string \<Rightarrow> string \<Rightarrow> string \<Rightarrow> filesystem \<times> bool" where
  "archive_old_invoice fs timestamp inv_id output_dir archive_dir =
     (let filename = inv_id @ ''.txt'';
          output_path = os_path_join output_dir filename
      in if path_exists fs output_path
         then (let archive_filename = inv_id @ ''_'' @ timestamp @ ''.txt'';
                   archive_path = os_path_join archive_dir archive_filename
               in (shutil_move fs output_path archive_path, True))
         else (fs, False))"

subsection \<open>Routing analysis\<close>

text \<open>
  The reason returned with a decision is a sentence; the one for a high-value invoice
  embeds the formatted subtotal. The model keeps which sentence it is:
  \<open>ExistingFile\<close> is "Existing file found - needs archiving", \<open>HighValue x\<close> is
  "High value ($x) - applying discount", \<open>PreferredClient\<close> is "Preferred client -
  applying loyalty discount" and \<open>NormalProcessing\<close> is "Normal processing".
\<close>

datatype routing_reason = ExistingFile | HighValue real | PreferredClient | NormalProcessing

definition analyze_invoice_routing ::
  "filesystem \<Rightarrow> InvoiceData \<Rightarrow> InvoiceConfig \<Rightarrow> py_error + string \<times> routing_reason" where
  "analyze_invoice_routing fs invoice config =
     (let totals = calculate_invoice_totals invoice config;
          output_file = os_path_join OUTPUT_DIR (invoice_id invoice @ ''.txt'')
      in if path_exists fs output_file then Inr (''archive_needed'', ExistingFile)
         else (case dict_item totals ''subtotal'' of
                 Inl e \<Rightarrow> Inl e
               | Inr sub \<Rightarrow>
                   if sub \<ge> high_value_threshold config then Inr (''high_value'', HighValue sub)
                   else if is_preferred invoice then Inr (''preferred'', PreferredClient)
                   else Inr (''standard'', NormalProcessing)))"

record InvoiceDecision =
  d_invoice :: InvoiceData
  d_config :: InvoiceConfig
  d_totals :: totals
  decision_type :: string
  reason :: routing_reason

subsection \<open>Executors\<close>

text \<open>
  \<open>InvoiceLoader.load_and_analyze\<close>. The configuration is the one \<open>InvoiceConfig()\<close>
  reads from the environment and \<open>all_invoices\<close> the rows \<open>read_invoices_csv\<close>
  returns; the handler assigns the module's \<open>selected_invoice_id\<close> and sends one
  decision.
\<close>

definition load_and_analyze ::
  "module_globals \<Rightarrow> filesystem \<Rightarrow> InvoiceConfig \<Rightarrow> InvoiceData list \<Rightarrow> stdin \<Rightarrow>
     py_error + module_globals \<times> InvoiceDecision" where
  "load_and_analyze g fs config all_invoices inp =
     (case show_menu all_invoices inp of
        Inl e \<Rightarrow> Inl e
      | Inr sel \<Rightarrow>
          (let g' = g\<lparr>selected_invoice_id := Some sel\<rparr> in
           case next_invoice all_invoices (the (selected_invoice_id g')) of
             Inl e \<Rightarrow> Inl e
           | Inr selected_invoice \<Rightarrow>
               (case analyze_invoice_routing fs selected_invoice config of
                  Inl e \<Rightarrow> Inl e
                | Inr (dtype, why) \<Rightarrow>
                    Inr (g', \<lparr>d_invoice = selected_invoice, d_config = config,
                              d_totals = calculate_invoice_totals selected_invoice config,
                              decision_type = dtype, reason = why\<rparr>))))"

text \<open>The condition functions of the routing cases.\<close>

definition is_archive_needed :: "InvoiceDecision \<Rightarrow> bool" where
  "is_archive_needed decision = (decision_type decision = ''archive_needed'')"

definition is_high_value :: "InvoiceDecision \<Rightarrow> bool" where
  "is_high_value decision = (decision_type decision = ''high_value'')"

text \<open>The source's \<open>is_preferred(decision)\<close>; the invoice field has the plain name here.\<close>

definition is_preferred_decision :: "InvoiceDecision \<Rightarrow> bool" where
  "is_preferred_decision decision = (decision_type decision = ''preferred'')"

text \<open>
  \<open>ArchiveHandler.archive_old\<close>: archive the old file, analyse again on the file
  system as it is now, overwrite the decision's type and reason, send it on.
\<close>

definition archive_old ::
  "filesystem \<Rightarrow> string \<Rightarrow> InvoiceDecision \<Rightarrow> py_error + filesystem \<times> InvoiceDecision" where
  "archive_old fs timestamp decision =
     (let (fs', archived) =
            archive_old_invoice fs timestamp (invoice_id (d_invoice decision))
              OUTPUT_DIR ARCHIVE_DIR
      in case analyze_invoice_routing fs' (d_invoice decision) (d_config decision) of
           Inl e \<Rightarrow> Inl e
         | Inr (dtype, why) \<Rightarrow> Inr (fs', decision\<lparr>decision_type := dtype, reason := why\<rparr>))"

subsection \<open>Switch-case edge groups\<close>

text \<open>
  A group is the list handed to \<open>add_switch_case_edge_group\<close>: \<open>Case(condition,
  target)\<close> entries and a \<open>Default(target)\<close>, targets named by executor id.
\<close>

datatype 'm switch_edge = Case "'m \<Rightarrow> bool" string | Default string

fun target :: "'m switch_edge \<Rightarrow> string" where
  "target (Case c t) = t"
| "target (Default t) = t"

fun case_holds :: "'m \<Rightarrow> 'm switch_edge \<Rightarrow> bool" where
  "case_holds m (Case c t) = c m"
| "case_holds m (Default t) = False"

text \<open>
  Modelled from the spec: the routing rule of a switch-case group belongs to the
  workflow engine (the imported \<open>agent_framework\<close> package), which is not among the
  sources. The spec's rule: predicates are evaluated in declaration order, the first
  true one selects its edge, and the default edge fires if none is true. It is stated
  edge by edge: the edge at position \<open>i\<close> fires when it is a case whose predicate holds
  while no earlier predicate does, or the default while no predicate holds at all.
\<close>

definition edge_fires :: "'m switch_edge list \<Rightarrow> 'm \<Rightarrow> nat \<Rightarrow> bool" where
  "edge_fires grp m i =
     (i < length grp \<and>
      (case grp ! i of
         Case c t \<Rightarrow> c m \<and> \<not> list_ex (case_holds m) (take i grp)
       | Default t \<Rightarrow> \<not> list_ex (case_holds m) grp))"

definition fired_targets :: "'m switch_edge list \<Rightarrow> 'm \<Rightarrow> string list" where
  "fired_targets grp m = map (\<lambda>i. target (grp ! i)) (filter (edge_fires grp m) [0..<length grp])"

text \<open>The two groups of \<open>run_workflow\<close>, in declaration order.\<close>

definition loader_group :: "InvoiceDecision switch_edge list" where
  "loader_group =
     [Case is_archive_needed ''archive_handler'',
      Case is_high_value ''high_value_handler'',
      Case is_preferred_decision ''preferred_handler'',
      Default ''standard_handler'']"

definition archive_group :: "InvoiceDecision switch_edge list" where
  "archive_group =
     [Case is_high_value ''high_value_handler'',
      Case is_preferred_decision ''preferred_handler'',
      Default ''standard_handler'']"

section \<open>The sequential workflow (new_16_sequential_workflow.py)\<close>

text \<open>
  \<open>read_invoice_data\<close>, the second executor of the chain: it receives the
  configuration, lets the user select, assigns the module's \<open>selected_invoice_id\<close>,
  looks the invoice up by that id and sends the pair of configuration and invoice.
\<close>

definition read_invoice_data ::
  "module_globals \<Rightarrow> InvoiceConfig \<Rightarrow> InvoiceData list \<Rightarrow> stdin \<Rightarrow>
     py_error + module_globals \<times> (InvoiceConfig \<times> InvoiceData)" where
  "read_invoice_data g config all_invoices inp =
     (case show_menu all_invoices inp of
        Inl e \<Rightarrow> Inl e
      | Inr sel \<Rightarrow>
          (let g' = g\<lparr>selected_invoice_id := Some sel\<rparr> in
           case next_invoice all_invoices (the (selected_invoice_id g')) of
             Inl e \<Rightarrow> Inl e
           | Inr selected_invoice \<Rightarrow> Inr (g', (config, selected_invoice))))"

section \<open>The concurrent workflow (new_17_concurrent_workflow.py)\<close>

text \<open>Values of the dictionaries with mixed entries.\<close>

datatype py_value = PStr string | PBool bool | PInt int | PFloat real

record InvoiceWithConfig =
  iwc_invoice :: InvoiceData
  iwc_config :: InvoiceConfig

record TotalsResult =
  tr_invoice_id :: string
  tr_totals :: totals

record ClientResult =
  cr_invoice_id :: string
  cr_client_info :: "string \<rightharpoonup> py_value"

record CreditResult =
  kr_invoice_id :: string
  kr_credit_check :: "string \<rightharpoonup> py_value"

record MergedResult =
  m_invoice :: InvoiceData
  m_config :: InvoiceConfig
  m_totals :: totals
  m_client_info :: "string \<rightharpoonup> py_value"
  m_credit_check :: "string \<rightharpoonup> py_value"

text \<open>\<open>Dispatcher.dispatch\<close>: select one invoice and send it with the configuration.\<close>

definition dispatch ::
  "module_globals \<Rightarrow> InvoiceConfig \<Rightarrow> InvoiceData list \<Rightarrow> stdin \<Rightarrow>
     py_error + module_globals \<times> InvoiceWithConfig" where
  "dispatch g config all_invoices inp =
     (case show_menu all_invoices inp of
        Inl e \<Rightarrow> Inl e
      | Inr sel \<Rightarrow>
          (let g' = g\<lparr>selected_invoice_id := Some sel\<rparr> in
           case next_invoice all_invoices (the (selected_invoice_id g')) of
             Inl e \<Rightarrow> Inl e
           | Inr selected_invoice \<Rightarrow>
               Inr (g', \<lparr>iwc_invoice = selected_invoice, iwc_config = config\<rparr>)))"

text \<open>The three parallel tasks. \<open>str.upper\<close> is modelled on ASCII letters.\<close>

definition str_upper :: "string \<Rightarrow> string" where
  "str_upper s =
     map (\<lambda>c. let n = (of_char c :: nat) in if 97 \<le> n \<and> n \<le> 122 then char_of (n - 32) else c) s"

definition calculate :: "InvoiceWithConfig \<Rightarrow> TotalsResult" where
  "calculate data =
     \<lparr>tr_invoice_id = invoice_id (iwc_invoice data),
      tr_totals = calculate_invoice_totals (iwc_invoice data) (iwc_config data)\<rparr>"

definition prepare_client :: "InvoiceWithConfig \<Rightarrow> ClientResult" where
  "prepare_client data =
     (let iv = iwc_invoice data in
      \<lparr>cr_invoice_id = invoice_id iv,
       cr_client_info =
         [''name'' \<mapsto> PStr (client_name iv),
          ''email'' \<mapsto> PStr (client_email iv),
          ''is_preferred'' \<mapsto> PBool (is_preferred iv),
          ''status'' \<mapsto> PStr (if is_preferred iv then ''VIP'' else ''Standard''),
          ''greeting'' \<mapsto> PStr (''Dear '' @ client_name iv @ '',''),
          ''account_manager'' \<mapsto> PStr (''AM-'' @ str_upper (take 3 (client_name iv))),
          ''last_order_date'' \<mapsto>
             PStr (if is_preferred iv then ''2024-12-01'' else ''2024-11-15'')]\<rparr>)"

definition check_credit :: "InvoiceWithConfig \<Rightarrow> CreditResult" where
  "check_credit data =
     (let invoice_amount = subtotal (iwc_invoice data);
          (credit_score, credit_limit, risk_level) =
             (if is_preferred (iwc_invoice data) then (850::int, 50000::int, ''LOW'')
              else if invoice_amount > 5000 then (720, 25000, ''MEDIUM'')
              else (650, 10000, ''MEDIUM''));
          approved = (invoice_amount \<le> of_int credit_limit)
      in \<lparr>kr_invoice_id = invoice_id (iwc_invoice data),
          kr_credit_check =
            [''credit_score'' \<mapsto> PInt credit_score,
             ''credit_limit'' \<mapsto> PInt credit_limit,
             ''risk_level'' \<mapsto> PStr risk_level,
             ''approved'' \<mapsto> PBool approved,
             ''invoice_amount'' \<mapsto> PFloat invoice_amount,
             ''available_credit'' \<mapsto>
                (if approved then PFloat (of_int credit_limit - invoice_amount) else PInt 0),
             ''check_timestamp'' \<mapsto> PStr ''2024-12-09T10:30:00Z'']\<rparr>)"

subsection \<open>The merger\<close>

text \<open>
  \<open>ResultsMerger\<close> keeps four attributes on the executor object, all \<open>None\<close> after
  \<open>__init__\<close>. Each of its four handlers stores its argument and calls
  \<open>_check_and_merge\<close>, which sends one \<open>MergedResult\<close> and sets the four attributes
  back to \<open>None\<close> when all of them are set (a dataclass object is always truthy, so
  the test is a test against \<open>None\<close>). A handler returns the new object state and
  the messages it sent.
\<close>

record ResultsMerger =
  totals_result :: "TotalsResult option"
  client_result :: "ClientResult option"
  credit_result :: "CreditResult option"
  original_data :: "InvoiceWithConfig option"

definition merger_init :: ResultsMerger where
  "merger_init =
     \<lparr>totals_result = None, client_result = None, credit_result = None, original_data = None\<rparr>"

definition check_and_merge :: "ResultsMerger \<Rightarrow> ResultsMerger \<times> MergedResult list" where
  "check_and_merge self =
     (case (totals_result self, client_result self, credit_result self, original_data self) of
        (Some t, Some c, Some k, Some d) \<Rightarrow>
          (self\<lparr>totals_result := None, client_result := None, credit_result := None,
                original_data := None\<rparr>,
           [\<lparr>m_invoice = iwc_invoice d, m_config = iwc_config d, m_totals = tr_totals t,
             m_client_info = cr_client_info c, m_credit_check = kr_credit_check k\<rparr>])
      | _ \<Rightarrow> (self, []))"

definition merge_totals :: "ResultsMerger \<Rightarrow> TotalsResult \<Rightarrow> ResultsMerger \<times> MergedResult list" where
  "merge_totals self result = check_and_merge (self\<lparr>totals_result := Some result\<rparr>)"

definition merge_client :: "ResultsMerger \<Rightarrow> ClientResult \<Rightarrow> ResultsMerger \<times> MergedResult list" where
  "merge_client self result = check_and_merge (self\<lparr>client_result := Some result\<rparr>)"

definition merge_credit :: "ResultsMerger \<Rightarrow> CreditResult \<Rightarrow> ResultsMerger \<times> MergedResult list" where
  "merge_credit self result = check_and_merge (self\<lparr>credit_result := Some result\<rparr>)"

definition store_original ::
  "ResultsMerger \<Rightarrow> InvoiceWithConfig \<Rightarrow> ResultsMerger \<times> MergedResult list" where
  "store_original self data = check_and_merge (self\<lparr>original_data := Some data\<rparr>)"

text \<open>
  A message arriving at the merger is handled by the handler declared for its payload
  type.
\<close>

datatype merger_msg =
  MTotals TotalsResult | MClient ClientResult | MCredit CreditResult | MOriginal InvoiceWithConfig

fun merger_handle :: "ResultsMerger \<Rightarrow> merger_msg \<Rightarrow> ResultsMerger \<times> MergedResult list" where
  "merger_handle self (MTotals r) = merge_totals self r"
| "merger_handle self (MClient r) = merge_client self r"
| "merger_handle self (MCredit r) = merge_credit self r"
| "merger_handle self (MOriginal d) = store_original self d"

text \<open>
  The messages arrive one after the other, in some order; each handler runs from its
  assignment through the test without giving up control. \<open>deliver_all\<close> hands a
  sequence of arrivals to the merger and collects what it sends.
\<close>

fun deliver_all :: "ResultsMerger \<Rightarrow> merger_msg list \<Rightarrow> ResultsMerger \<times> MergedResult list" where
  "deliver_all self [] = (self, [])"
| "deliver_all self (m # ms) =
     (let (self', out) = merger_handle self m;
          (self'', outs) = deliver_all self' ms
      in (self'', out @ outs))"

text \<open>
  The graph of \<open>run_workflow\<close>: the dispatcher fans its message out to the three
  tasks and to the merger, and each task has one edge to the merger and sends one
  result. These are the four messages one run delivers to the merger.
\<close>

definition merger_inbox :: "InvoiceWithConfig \<Rightarrow> merger_msg list" where
  "merger_inbox data =
     [MOriginal data, MTotals (calculate data), MClient (prepare_client data),
      MCredit (check_credit data)]"

section \<open>The interactive workflow (new_19_interactive_checkpointing.py)\<close>

record TaxConfirmationRequest =
  tq_invoice_id :: string
  tq_question :: string
  tq_current_value :: real
  tq_options :: string

record DiscountConfirmationRequest =
  dq_invoice_id :: string
  dq_question :: string
  dq_current_value :: real
  dq_options :: string

record InvoiceState =
  st_invoice_id :: string
  st_subtotal :: real
  st_tax_rate :: real
  st_tax_amount :: real
  st_discount_rate :: real
  st_discount_amount :: real
  tax_confirmed :: bool
  discount_confirmed :: bool
  processing_stage :: string

text \<open>
  What a handler sees of its \<open>WorkflowContext\<close>: the state dictionary of its own
  executor, replaced by \<open>set_state\<close>, and the run's shared state, a dictionary
  written key by key with \<open>set_shared_state\<close> and read with a default by
  \<open>get_shared_state\<close>.
\<close>

record WorkflowContext =
  executor_state :: "string \<rightharpoonup> py_value"
  shared_state :: "string \<rightharpoonup> py_value"

definition set_state :: "WorkflowContext \<Rightarrow> (string \<rightharpoonup> py_value) \<Rightarrow> WorkflowContext" where
  "set_state ctx d = ctx\<lparr>executor_state := d\<rparr>"

definition set_shared_state :: "WorkflowContext \<Rightarrow> string \<Rightarrow> py_value \<Rightarrow> WorkflowContext" where
  "set_shared_state ctx k v = ctx\<lparr>shared_state := (shared_state ctx)(k \<mapsto> v)\<rparr>"

definition get_shared_state :: "WorkflowContext \<Rightarrow> string \<Rightarrow> py_value \<Rightarrow> py_value" where
  "get_shared_state ctx k dflt = dict_get (shared_state ctx) k dflt"

text \<open>
  The payloads that travel along the edges of this workflow. Each handler returns the
  value it hands on.
\<close>

datatype payload =
  PInvoiceData InvoiceData
| PInvoiceState InvoiceState
| PTaxConfirmationRequest TaxConfirmationRequest
| PDiscountConfirmationRequest DiscountConfirmationRequest


definition request_tax_confirmation ::
  "InvoiceState \<Rightarrow> WorkflowContext \<Rightarrow> WorkflowContext \<times> TaxConfirmationRequest" where
  "request_tax_confirmation state ctx =
     (let request = \<lparr>tq_invoice_id = st_invoice_id state,
                      tq_question = ''Confirm tax calculation for '' @ st_invoice_id state @ ''?'',
                      tq_current_value = st_tax_amount state,
                      tq_options = ''Type 'yes' to confirm or 'no' to skip''\<rparr>;
          ctx1 = set_state ctx
                   [''step'' \<mapsto> PStr ''tax_request'',
                    ''invoice_id'' \<mapsto> PStr (st_invoice_id state),
                    ''tax_amount'' \<mapsto> PFloat (st_tax_amount state),
                    ''timestamp'' \<mapsto> PStr ''2025-10-21T12:00:00Z''];
          ctx2 = set_shared_state ctx1 ''current_invoice_id'' (PStr (st_invoice_id state));
          ctx3 = set_shared_state ctx2 ''processing_stage'' (PStr ''tax_confirmation'')
      in (ctx3, request))"

text \<open>
  The shared state holds untyped values; the handlers of this workflow only ever store
  strings under \<open>current_invoice_id\<close>, and \<open>py_str\<close> reads such an entry (any other
  value, which no handler writes, is read as the empty string).
\<close>

fun py_str :: "py_value \<Rightarrow> string" where
  "py_str (PStr s) = s"
| "py_str v = []"

text \<open>
  \<open>TaxConfirmationProcessor.process_tax_response\<close>. The invoice id comes from the
  shared state, the tax amount from the request, the other fields are the constants
  of the source, and the tax counts as confirmed.
\<close>

definition process_tax_response ::
  "TaxConfirmationRequest \<Rightarrow> WorkflowContext \<Rightarrow> WorkflowContext \<times> InvoiceState" where
  "process_tax_response response ctx =
     (let inv_id = get_shared_state ctx ''current_invoice_id'' (PStr ''INV-001'');
          tax_amount = tq_current_value response;
          state0 = \<lparr>st_invoice_id = py_str inv_id, st_subtotal = 6000,
                    st_tax_rate = 10 / 100, st_tax_amount = tax_amount,
                    st_discount_rate = 8 / 100, st_discount_amount = 480,
                    tax_confirmed = True, discount_confirmed = False,
                    processing_stage = ''tax_processed''\<rparr>;
          state = (if tax_confirmed state0 then state0 else state0\<lparr>st_tax_amount := 0\<rparr>);
          ctx1 = set_state ctx
                   [''step'' \<mapsto> PStr ''tax_processed'',
                    ''invoice_id'' \<mapsto> inv_id,
                    ''tax_confirmed'' \<mapsto> PBool (tax_confirmed state),
                    ''tax_amount'' \<mapsto> PFloat (st_tax_amount state),
                    ''timestamp'' \<mapsto> PStr ''2025-10-21T12:00:00Z''];
          ctx2 = set_shared_state ctx1 ''processing_stage'' (PStr ''tax_processed'');
          ctx3 = set_shared_state ctx2 ''tax_confirmed'' (PBool (tax_confirmed state))
      in (ctx3, state))"

text \<open>
  \<open>DiscountConfirmationRequester.request_discount_confirmation\<close>: with a positive
  discount it returns a request, otherwise it marks the state and returns the state
  itself.
\<close>

definition request_discount_confirmation ::
  "InvoiceState \<Rightarrow> WorkflowContext \<Rightarrow> WorkflowContext \<times> payload" where
  "request_discount_confirmation state ctx =
     (if st_discount_amount state > 0
      then (let request = \<lparr>dq_invoice_id = st_invoice_id state,
                            dq_question = ''Apply discount to '' @ st_invoice_id state @ ''?'',
                            dq_current_value = st_discount_amount state,
                            dq_options = ''Type 'yes' to apply or 'no' to skip''\<rparr>;
                ctx1 = set_state ctx
                         [''step'' \<mapsto> PStr ''discount_request'',
                          ''invoice_id'' \<mapsto> PStr (st_invoice_id state),
                          ''discount_amount'' \<mapsto> PFloat (st_discount_amount state),
                          ''timestamp'' \<mapsto> PStr ''2025-10-21T12:00:00Z''];
                ctx2 = set_shared_state ctx1 ''processing_stage'' (PStr ''discount_confirmation'')
            in (ctx2, PDiscountConfirmationRequest request))
      else (let state' = state\<lparr>discount_confirmed := True, processing_stage := ''discount_skipped''\<rparr>;
                ctx1 = set_state ctx
                         [''step'' \<mapsto> PStr ''discount_skipped'',
                          ''invoice_id'' \<mapsto> PStr (st_invoice_id state'),
                          ''timestamp'' \<mapsto> PStr ''2025-10-21T12:00:00Z'']
            in (ctx1, PInvoiceState state')))"

text \<open>\<open>DiscountConfirmationProcessor.process_discount_response\<close>.\<close>

definition process_discount_response ::
  "DiscountConfirmationRequest \<Rightarrow> WorkflowContext \<Rightarrow> WorkflowContext \<times> InvoiceState" where
  "process_discount_response response ctx =
     (let inv_id = get_shared_state ctx ''current_invoice_id'' (PStr ''INV-001'');
          discount_amount = dq_current_value response;
          state0 = \<lparr>st_invoice_id = py_str inv_id, st_subtotal = 6000,
                    st_tax_rate = 10 / 100, st_tax_amount = 600,
                    st_discount_rate = 8 / 100, st_discount_amount = discount_amount,
                    tax_confirmed = True, discount_confirmed = True,
                    processing_stage = ''discount_processed''\<rparr>;
          state = (if discount_confirmed state0 then state0 else state0\<lparr>st_discount_amount := 0\<rparr>);
          ctx1 = set_state ctx
                   [''step'' \<mapsto> PStr ''discount_processed'',
                    ''invoice_id'' \<mapsto> inv_id,
                    ''discount_confirmed'' \<mapsto> PBool (discount_confirmed state),
                    ''discount_amount'' \<mapsto> PFloat (st_discount_amount state),
                    ''timestamp'' \<mapsto> PStr ''2025-10-21T12:00:00Z''];
          ctx2 = set_shared_state ctx1 ''processing_stage'' (PStr ''discount_processed'');
          ctx3 = set_shared_state ctx2 ''discount_confirmed'' (PBool (discount_confirmed state))
      in (ctx3, state))"

subsection \<open>The graph built in main\<close>







subsection \<open>The interactive runner\<close>

text \<open>
  \<open>run_interactive_workflow\<close> starts the workflow once and reads all events of the
  stream; \<open>events\<close> is that list. If one of them is a \<open>WorkflowOutputEvent\<close> the
  runner reports completion and returns. Otherwise it reads two answers from the
  console (each as \<open>strip().lower()\<close> leaves it), prints them back and returns. The
  result records the local \<open>completed\<close>, the output printed, the answers read, the
  arguments of the calls made to the workflow, and the console input left.
\<close>

datatype event = WorkflowOutputEvent string | WorkflowStatusEvent string | OtherEvent string




section \<open>Vocabulary of the proofs\<close>

text \<open>
  The kind of a message at the merger, the assignment each handler makes before it
  calls \<open>_check_and_merge\<close>, the set of attributes that are set, and the result a
  complete merger sends.
\<close>

datatype msg_kind = KTotals | KClient | KCredit | KOriginal

fun kind_of :: "merger_msg \<Rightarrow> msg_kind" where
  "kind_of (MTotals r) = KTotals"
| "kind_of (MClient r) = KClient"
| "kind_of (MCredit r) = KCredit"
| "kind_of (MOriginal d) = KOriginal"

fun store :: "merger_msg \<Rightarrow> ResultsMerger \<Rightarrow> ResultsMerger" where
  "store (MTotals r) self = self\<lparr>totals_result := Some r\<rparr>"
| "store (MClient r) self = self\<lparr>client_result := Some r\<rparr>"
| "store (MCredit r) self = self\<lparr>credit_result := Some r\<rparr>"
| "store (MOriginal d) self = self\<lparr>original_data := Some d\<rparr>"

definition filled :: "ResultsMerger \<Rightarrow> msg_kind set" where
  "filled self =
     (if totals_result self = None then {} else {KTotals}) \<union>
     (if client_result self = None then {} else {KClient}) \<union>
     (if credit_result self = None then {} else {KCredit}) \<union>
     (if original_data self = None then {} else {KOriginal})"

definition merged_of :: "ResultsMerger \<Rightarrow> MergedResult" where
  "merged_of self =
     \<lparr>m_invoice = iwc_invoice (the (original_data self)),
      m_config = iwc_config (the (original_data self)),
      m_totals = tr_totals (the (totals_result self)),
      m_client_info = cr_client_info (the (client_result self)),
      m_credit_check = kr_credit_check (the (credit_result self))\<rparr>"

section \<open>Sample data\<close>

definition inv_6000 :: InvoiceData where
  "inv_6000 =
     \<lparr>invoice_id = ''INV-001'', client_name = ''Acme Corporation'',
      client_email = ''billing@acme.example'', is_preferred = True,
      item_description = ''Consulting'', quantity = 2, unit_price = 3000,
      date = ''2024-12-01''\<rparr>"

definition inv_100 :: InvoiceData where
  "inv_100 =
     \<lparr>invoice_id = ''INV-002'', client_name = ''Bolt Ltd'',
      client_email = ''pay@bolt.example'', is_preferred = False,
      item_description = ''Support'', quantity = 1, unit_price = 100,
      date = ''2024-11-15''\<rparr>"

definition data_A :: InvoiceWithConfig where
  "data_A = \<lparr>iwc_invoice = inv_6000, iwc_config = default_config\<rparr>"

definition data_B :: InvoiceWithConfig where
  "data_B = \<lparr>iwc_invoice = inv_100, iwc_config = default_config\<rparr>"

definition fs_old :: filesystem where
  "fs_old = [''output/INV-001.txt'' \<mapsto> ''old invoice text'']"

definition decision_archive :: InvoiceDecision where
  "decision_archive =
     \<lparr>d_invoice = inv_6000, d_config = default_config,
      d_totals = calculate_invoice_totals inv_6000 default_config,
      decision_type = ''archive_needed'', reason = ExistingFile\<rparr>"




section \<open>Properties\<close>

subsection \<open>Invoice totals\<close>

lemma totals_keys:
  "dom (calculate_invoice_totals invoice config) =
     {''subtotal'', ''high_value_discount'', ''preferred_discount'', ''total_discount'',
      ''amount_after_discount'', ''tax'', ''total''}"
  by (auto simp: calculate_invoice_totals_def Let_def split: if_splits)


subsection \<open>Switch-case routing\<close>

lemma loader_fires:
  "edge_fires loader_group d i =
     (if is_archive_needed d then i = 0
      else if is_high_value d then i = 1
      else if is_preferred_decision d then i = 2
      else i = 3)"
proof -
  have "i < 4 \<longleftrightarrow> i = 0 \<or> i = 1 \<or> i = 2 \<or> i = 3" by auto
  then show ?thesis
    by (auto simp: edge_fires_def loader_group_def)
qed

lemma upt_4: "[0..<4] = [0, 1, 2, 3::nat]"
  by (simp add: numeral_eq_Suc)

lemma loader_fired_targets:
  "fired_targets loader_group d =
     [if is_archive_needed d then ''archive_handler''
      else if is_high_value d then ''high_value_handler''
      else if is_preferred_decision d then ''preferred_handler''
      else ''standard_handler'']"
proof -
  have len: "length loader_group = 4" by (simp add: loader_group_def)
  have nth: "target (loader_group ! 0) = ''archive_handler''"
    "target (loader_group ! Suc 0) = ''high_value_handler''"
    "target (loader_group ! 2) = ''preferred_handler''"
    "target (loader_group ! 3) = ''standard_handler''"
    by (simp_all add: loader_group_def)
  show ?thesis
    unfolding fired_targets_def len upt_4 by (simp add: loader_fires nth)
qed

lemma loader_cases_exclusive:
  "length (filter (case_holds m) loader_group) \<le> 1"
  by (simp add: loader_group_def is_archive_needed_def is_high_value_def is_preferred_decision_def)

lemma analyze_cases:
  "analyze_invoice_routing fs invoice config =
     (if path_exists fs (os_path_join OUTPUT_DIR (invoice_id invoice @ ''.txt''))
      then Inr (''archive_needed'', ExistingFile)
      else if subtotal invoice \<ge> high_value_threshold config
      then Inr (''high_value'', HighValue (subtotal invoice))
      else if is_preferred invoice then Inr (''preferred'', PreferredClient)
      else Inr (''standard'', NormalProcessing))"
  by (simp add: analyze_invoice_routing_def calculate_invoice_totals_def dict_item_def Let_def)

lemma load_and_analyze_decision:
  assumes "load_and_analyze g fs config all_invoices inp = Inr (g', d)"
  shows "analyze_invoice_routing fs (d_invoice d) config = Inr (decision_type d, reason d)"
  using assms
  by (auto simp: load_and_analyze_def Let_def split: sum.splits prod.splits)

lemma load_6000:
  "load_and_analyze initial_globals Map.empty default_config [inv_6000] [Some 1] =
     Inr (\<lparr>selected_invoice_id = Some ''INV-001''\<rparr>,
          \<lparr>d_invoice = inv_6000, d_config = default_config,
           d_totals = calculate_invoice_totals inv_6000 default_config,
           decision_type = ''high_value'', reason = HighValue 6000\<rparr>)"
  by (simp add: load_and_analyze_def next_invoice_def analyze_cases initial_globals_def
      inv_6000_def path_exists_def subtotal_def default_config_def)

text \<open>
  Claim C1. For every message leaving the loader's switch-case group (cases
  \<open>is_archive_needed\<close>, \<open>is_high_value\<close>, \<open>is_preferred\<close>, default
  \<open>standard_handler\<close>) exactly one of the four edges fires: the edge of the first
  case, in declaration order, whose predicate holds, and the default edge only when no
  predicate holds (the three predicates compare the decision type with three different
  strings, so at most one of them holds). In particular, when the loader analyses an invoice whose subtotal
  reaches the high-value threshold, whose client is preferred and whose output file
  does not exist, only the edge to \<open>high_value_handler\<close> fires (edge 1) and the edge
  to \<open>preferred_handler\<close> (edge 2) does not.
\<close>

theorem switch_case_exactly_one_edge:
  "(\<exists>!i. edge_fires loader_group m i) \<and>
   length (filter (case_holds m) loader_group) \<le> 1 \<and>
   fired_targets loader_group m =
     [if is_archive_needed m then ''archive_handler''
      else if is_high_value m then ''high_value_handler''
      else if is_preferred_decision m then ''preferred_handler''
      else ''standard_handler''] \<and>
   (load_and_analyze g fs config all_invoices inp = Inr (g', d) \<and>
    \<not> path_exists fs (os_path_join OUTPUT_DIR (invoice_id (d_invoice d) @ ''.txt'')) \<and>
    subtotal (d_invoice d) \<ge> high_value_threshold config \<and> is_preferred (d_invoice d)
    \<longrightarrow> fired_targets loader_group d = [''high_value_handler''] \<and>
        edge_fires loader_group d 1 \<and> \<not> edge_fires loader_group d 2)"
proof (intro conjI impI)
  show "\<exists>!i. edge_fires loader_group m i"
    by (cases "is_archive_needed m"; cases "is_high_value m"; cases "is_preferred_decision m")
       (simp_all add: loader_fires)
  show "fired_targets loader_group m =
     [if is_archive_needed m then ''archive_handler''
      else if is_high_value m then ''high_value_handler''
      else if is_preferred_decision m then ''preferred_handler''
      else ''standard_handler'']"
    by (rule loader_fired_targets)
  show "length (filter (case_holds m) loader_group) \<le> 1"
    by (rule loader_cases_exclusive)
next
  assume a: "load_and_analyze g fs config all_invoices inp = Inr (g', d) \<and>
    \<not> path_exists fs (os_path_join OUTPUT_DIR (invoice_id (d_invoice d) @ ''.txt'')) \<and>
    subtotal (d_invoice d) \<ge> high_value_threshold config \<and> is_preferred (d_invoice d)"
  then have "analyze_invoice_routing fs (d_invoice d) config = Inr (decision_type d, reason d)"
    using load_and_analyze_decision by blast
  with a have dt: "decision_type d = ''high_value''"
    by (simp add: analyze_cases)
  then have hv: "is_high_value d" "\<not> is_archive_needed d"
    by (simp_all add: is_high_value_def is_archive_needed_def)
  show "fired_targets loader_group d = [''high_value_handler'']"
    using hv by (simp add: loader_fired_targets)
  show "edge_fires loader_group d 1" using hv by (simp add: loader_fires)
  show "\<not> edge_fires loader_group d 2" using hv by (simp add: loader_fires)
qed

theorem switch_case_exactly_one_edge_witness:
  "load_and_analyze initial_globals Map.empty default_config [inv_6000] [Some 1] =
     Inr (\<lparr>selected_invoice_id = Some ''INV-001''\<rparr>,
          \<lparr>d_invoice = inv_6000, d_config = default_config,
           d_totals = calculate_invoice_totals inv_6000 default_config,
           decision_type = ''high_value'', reason = HighValue 6000\<rparr>) \<and>
   \<not> path_exists Map.empty (os_path_join OUTPUT_DIR (invoice_id inv_6000 @ ''.txt'')) \<and>
   subtotal inv_6000 \<ge> high_value_threshold default_config \<and> is_preferred inv_6000 \<and>
   fired_targets loader_group
     \<lparr>d_invoice = inv_6000, d_config = default_config,
      d_totals = calculate_invoice_totals inv_6000 default_config,
      decision_type = ''high_value'', reason = HighValue 6000\<rparr> = [''high_value_handler'']"
proof -
  let ?d = "\<lparr>d_invoice = inv_6000, d_config = default_config,
           d_totals = calculate_invoice_totals inv_6000 default_config,
           decision_type = ''high_value'', reason = HighValue 6000\<rparr>"
  have h: "\<not> path_exists Map.empty (os_path_join OUTPUT_DIR (invoice_id (d_invoice ?d) @ ''.txt'')) \<and>
      subtotal (d_invoice ?d) \<ge> high_value_threshold default_config \<and> is_preferred (d_invoice ?d)"
    by (simp add: path_exists_def subtotal_def inv_6000_def default_config_def)
  from switch_case_exactly_one_edge
    [where g = initial_globals and fs = Map.empty and config = default_config
       and all_invoices = "[inv_6000]" and inp = "[Some 1]"
       and g' = "\<lparr>selected_invoice_id = Some ''INV-001''\<rparr>" and d = ?d]
    load_6000 h
  have "fired_targets loader_group ?d = [''high_value_handler'']" by blast
  with h load_6000 show ?thesis by simp
qed

subsection \<open>The archive branch\<close>

lemma output_path_not_archive_path:
  "os_path_join OUTPUT_DIR (i @ ''.txt'') \<noteq> os_path_join ARCHIVE_DIR (i @ ''_'' @ ts @ ''.txt'')"
  by (cases i) (auto simp: os_path_join_def OUTPUT_DIR_def ARCHIVE_DIR_def)

lemma archive_removes_output:
  "\<not> path_exists (fst (archive_old_invoice fs ts i OUTPUT_DIR ARCHIVE_DIR))
       (os_path_join OUTPUT_DIR (i @ ''.txt''))"
  using output_path_not_archive_path[of i ts]
  by (auto simp: archive_old_invoice_def Let_def path_exists_def shutil_move_def)

lemma archive_fired_targets:
  "fired_targets archive_group d =
     [if is_high_value d then ''high_value_handler''
      else if is_preferred_decision d then ''preferred_handler''
      else ''standard_handler'']"
proof -
  have len: "length archive_group = 3" by (simp add: archive_group_def)
  have upt_3: "[0..<3] = [0, 1, 2::nat]" by (simp add: numeral_eq_Suc)
  have fires: "edge_fires archive_group d i =
     (if is_high_value d then i = 0 else if is_preferred_decision d then i = 1 else i = 2)" for i
  proof -
    have "i < 3 \<longleftrightarrow> i = 0 \<or> i = 1 \<or> i = 2" by auto
    then show ?thesis by (auto simp: edge_fires_def archive_group_def)
  qed
  have nth: "target (archive_group ! 0) = ''high_value_handler''"
    "target (archive_group ! Suc 0) = ''preferred_handler''"
    "target (archive_group ! 2) = ''standard_handler''"
    by (simp_all add: archive_group_def)
  show ?thesis
    unfolding fired_targets_def len upt_3 by (simp add: fires nth)
qed

text \<open>
  Claim C10. The archive handler's step always completes in the model; it moves an
  existing output file of the invoice to the archive directory, after it the output
  file does not exist, and the decision it sends on is \<open>high_value\<close>,
  \<open>preferred\<close> or \<open>standard\<close>, never \<open>archive_needed\<close>. As long as nobody
  creates the output file again, analysing the same invoice again never yields
  \<open>archive_needed\<close>. The second switch-case group, which has no archive case,
  therefore routes the decision exactly as the loader's group would, and never to
  the archive handler.
\<close>

theorem archive_not_needed_again:
  "\<exists>fs' d'. archive_old fs ts d = Inr (fs', d') \<and>
     d_invoice d' = d_invoice d \<and> d_config d' = d_config d \<and>
     (path_exists fs (os_path_join OUTPUT_DIR (invoice_id (d_invoice d) @ ''.txt'')) \<longrightarrow>
        fs' (os_path_join ARCHIVE_DIR (invoice_id (d_invoice d) @ ''_'' @ ts @ ''.txt'')) =
        fs (os_path_join OUTPUT_DIR (invoice_id (d_invoice d) @ ''.txt''))) \<and>
     \<not> path_exists fs' (os_path_join OUTPUT_DIR (invoice_id (d_invoice d) @ ''.txt'')) \<and>
     decision_type d' \<in> {''high_value'', ''preferred'', ''standard''} \<and>
     \<not> is_archive_needed d' \<and>
     fired_targets archive_group d' = fired_targets loader_group d' \<and>
     ''archive_handler'' \<notin> set (fired_targets archive_group d') \<and>
     (\<forall>fs''. \<not> path_exists fs'' (os_path_join OUTPUT_DIR (invoice_id (d_invoice d) @ ''.txt''))
        \<longrightarrow> (\<exists>dtype why. analyze_invoice_routing fs'' (d_invoice d') (d_config d') = Inr (dtype, why)
              \<and> dtype \<noteq> ''archive_needed''))"
proof -
  define fs' where "fs' = fst (archive_old_invoice fs ts (invoice_id (d_invoice d)) OUTPUT_DIR ARCHIVE_DIR)"
  define r where "r = analyze_invoice_routing fs' (d_invoice d) (d_config d)"
  have gone: "\<not> path_exists fs' (os_path_join OUTPUT_DIR (invoice_id (d_invoice d) @ ''.txt''))"
    unfolding fs'_def by (rule archive_removes_output)
  have moved: "fs' (os_path_join ARCHIVE_DIR (invoice_id (d_invoice d) @ ''_'' @ ts @ ''.txt'')) =
        fs (os_path_join OUTPUT_DIR (invoice_id (d_invoice d) @ ''.txt''))"
    if "path_exists fs (os_path_join OUTPUT_DIR (invoice_id (d_invoice d) @ ''.txt''))"
    using that by (simp add: fs'_def archive_old_invoice_def Let_def shutil_move_def)
  have "\<exists>dtype why. r = Inr (dtype, why) \<and> dtype \<in> {''high_value'', ''preferred'', ''standard''}"
    unfolding r_def using gone by (simp add: analyze_cases)
  then obtain dtype why where r: "r = Inr (dtype, why)"
    and dt: "dtype \<in> {''high_value'', ''preferred'', ''standard''}"
    by blast
  define d' where "d' = d\<lparr>decision_type := dtype, reason := why\<rparr>"
  have run: "archive_old fs ts d = Inr (fs', d')"
    using r by (auto simp: archive_old_def fs'_def r_def d'_def split: prod.splits)
  have na: "\<not> is_archive_needed d'"
    using dt by (auto simp: d'_def is_archive_needed_def)
  have same: "fired_targets archive_group d' = fired_targets loader_group d'"
    using na by (simp add: archive_fired_targets loader_fired_targets)
  have notin: "''archive_handler'' \<notin> set (fired_targets archive_group d')"
    by (simp add: archive_fired_targets)
  have again: "\<exists>dtype why. analyze_invoice_routing fs'' (d_invoice d') (d_config d') = Inr (dtype, why)
              \<and> dtype \<noteq> ''archive_needed''"
    if "\<not> path_exists fs'' (os_path_join OUTPUT_DIR (invoice_id (d_invoice d) @ ''.txt''))" for fs''
    using that by (simp add: analyze_cases d'_def)
  have keep: "d_invoice d' = d_invoice d" "d_config d' = d_config d" "decision_type d' = dtype"
    by (simp_all add: d'_def)
  show ?thesis
    using run gone moved dt na same notin again keep by (intro exI[of _ fs'] exI[of _ d']) simp
qed

theorem archive_not_needed_again_witness:
  "archive_old fs_old ''20241209_103000'' decision_archive =
     Inr ([''archive/INV-001_20241209_103000.txt'' \<mapsto> ''old invoice text''],
          decision_archive\<lparr>decision_type := ''high_value'', reason := HighValue 6000\<rparr>) \<and>
   \<not> path_exists [''archive/INV-001_20241209_103000.txt'' \<mapsto> ''old invoice text'']
       (os_path_join OUTPUT_DIR (invoice_id (d_invoice decision_archive) @ ''.txt'')) \<and>
   (\<exists>dtype why.
      analyze_invoice_routing [''archive/INV-001_20241209_103000.txt'' \<mapsto> ''old invoice text'']
        inv_6000 default_config = Inr (dtype, why) \<and> dtype \<noteq> ''archive_needed'')"
proof -
  let ?fs = "[''archive/INV-001_20241209_103000.txt'' \<mapsto> ''old invoice text'']"
  let ?d = "decision_archive\<lparr>decision_type := ''high_value'', reason := HighValue 6000\<rparr>"
  have run: "archive_old fs_old ''20241209_103000'' decision_archive = Inr (?fs, ?d)"
    by (simp add: archive_old_def archive_old_invoice_def analyze_cases fs_old_def
        decision_archive_def inv_6000_def default_config_def os_path_join_def OUTPUT_DIR_def
        ARCHIVE_DIR_def path_exists_def shutil_move_def subtotal_def fun_upd_def fun_eq_iff
        Let_def)
  have gone: "\<not> path_exists ?fs (os_path_join OUTPUT_DIR (invoice_id (d_invoice decision_archive) @ ''.txt''))"
    by (simp add: path_exists_def os_path_join_def OUTPUT_DIR_def decision_archive_def inv_6000_def)
  from archive_not_needed_again[of fs_old "''20241209_103000''" decision_archive] run
  have "\<forall>fs''. \<not> path_exists fs'' (os_path_join OUTPUT_DIR (invoice_id (d_invoice decision_archive) @ ''.txt''))
        \<longrightarrow> (\<exists>dtype why. analyze_invoice_routing fs'' (d_invoice ?d) (d_config ?d) = Inr (dtype, why)
              \<and> dtype \<noteq> ''archive_needed'')"
    by auto
  with gone have "\<exists>dtype why. analyze_invoice_routing ?fs (d_invoice ?d) (d_config ?d) = Inr (dtype, why)
              \<and> dtype \<noteq> ''archive_needed''"
    by blast
  then have "\<exists>dtype why. analyze_invoice_routing ?fs inv_6000 default_config = Inr (dtype, why)
              \<and> dtype \<noteq> ''archive_needed''"
    by (simp add: decision_archive_def)
  with run gone show ?thesis by blast
qed

subsection \<open>The merger of the concurrent workflow\<close>

lemma UNIV_msg_kind: "UNIV = {KTotals, KClient, KCredit, KOriginal}"
  using msg_kind.exhaust by auto

lemma merger_handle_store: "merger_handle self m = check_and_merge (store m self)"
  by (cases m) (simp_all add: merge_totals_def merge_client_def merge_credit_def store_original_def)

lemma filled_store: "filled (store m self) = insert (kind_of m) (filled self)"
  by (cases m) (auto simp: filled_def)

lemma filled_UNIV:
  "filled self = UNIV \<longleftrightarrow>
     totals_result self \<noteq> None \<and> client_result self \<noteq> None \<and>
     credit_result self \<noteq> None \<and> original_data self \<noteq> None"
  by (auto simp: filled_def UNIV_msg_kind split: if_splits)

lemma check_incomplete: "filled self \<noteq> UNIV \<Longrightarrow> check_and_merge self = (self, [])"
  by (auto simp: filled_UNIV check_and_merge_def split: option.splits)

lemma check_complete:
  "filled self = UNIV \<Longrightarrow> check_and_merge self = (merger_init, [merged_of self])"
  by (auto simp: filled_UNIV check_and_merge_def merger_init_def merged_of_def split: option.splits)

lemma filled_init: "filled merger_init = {}"
  by (simp add: filled_def merger_init_def)

lemma deliver_all_distinct:
  "distinct (map kind_of ms) \<Longrightarrow> kind_of ` set ms \<inter> filled self = {} \<Longrightarrow>
   deliver_all self ms =
     (if ms \<noteq> [] \<and> filled self \<union> kind_of ` set ms = UNIV
      then (merger_init, [merged_of (fold store ms self)])
      else (fold store ms self, []))"
proof (induction ms arbitrary: self)
  case Nil
  then show ?case by simp
next
  case (Cons m ms)
  let ?s1 = "store m self"
  show ?case
  proof (cases "ms = []")
    case True
    then show ?thesis
      by (simp add: merger_handle_store check_incomplete check_complete filled_store)
  next
    case False
    then obtain m' where m': "m' \<in> set ms" by (cases ms) auto
    have "kind_of m \<notin> kind_of ` set ms"
      using Cons.prems(1) by simp
    then have "kind_of m' \<noteq> kind_of m"
      using m' by (metis imageI)
    moreover have "kind_of m' \<notin> filled self"
      using Cons.prems(2) m' by force
    ultimately have "kind_of m' \<notin> filled ?s1"
      by (simp add: filled_store)
    then have inc: "filled ?s1 \<noteq> UNIV" by auto
    have pre: "distinct (map kind_of ms)" "kind_of ` set ms \<inter> filled ?s1 = {}"
      using Cons.prems by (auto simp: filled_store)
    have un: "filled ?s1 \<union> kind_of ` set ms = filled self \<union> kind_of ` set (m # ms)"
      by (auto simp: filled_store)
    show ?thesis
      using Cons.IH[OF pre] False inc un
      by (simp add: merger_handle_store check_incomplete)
  qed
qed

lemma store_commute:
  "kind_of a \<noteq> kind_of b \<Longrightarrow> store a (store b self) = store b (store a self)"
  by (cases a; cases b) simp_all

lemma fold_store_perm:
  assumes "mset ms = mset [MOriginal d, MTotals t, MClient c, MCredit k]"
  shows "fold store ms self =
     self\<lparr>totals_result := Some t, client_result := Some c, credit_result := Some k,
          original_data := Some d\<rparr>"
proof -
  have set: "set ms = {MOriginal d, MTotals t, MClient c, MCredit k}"
    using mset_eq_setD[OF assms] by simp
  have "fold store ms = fold store [MOriginal d, MTotals t, MClient c, MCredit k]"
  proof (rule fold_multiset_equiv[OF _ assms])
    fix x y assume "x \<in> set ms" "y \<in> set ms"
    then show "store x \<circ> store y = store y \<circ> store x"
      unfolding set by (cases "x = y") (auto simp: fun_eq_iff store_commute)
  qed
  then show ?thesis by simp
qed

lemma perm_kinds:
  assumes "mset ms = mset [MOriginal d, MTotals t, MClient c, MCredit k]"
  shows "distinct (map kind_of ms)" and "kind_of ` set ms = UNIV" and "length ms = 4"
proof -
  have m: "mset (map kind_of ms) = mset (map kind_of [MOriginal d, MTotals t, MClient c, MCredit k])"
    using arg_cong[OF assms, of "image_mset kind_of"] by simp
  show "distinct (map kind_of ms)"
    using mset_eq_imp_distinct_iff[OF m] by simp
  have "set (map kind_of ms) = set (map kind_of [MOriginal d, MTotals t, MClient c, MCredit k])"
    using m by (rule mset_eq_setD)
  then show "kind_of ` set ms = UNIV" by (auto simp: UNIV_msg_kind)
  show "length ms = 4" using mset_eq_length[OF assms] by simp
qed

lemma deliver_all_run:
  assumes "mset ms = mset [MOriginal d, MTotals t, MClient c, MCredit k]"
  shows "deliver_all merger_init ms =
     (merger_init,
      [\<lparr>m_invoice = iwc_invoice d, m_config = iwc_config d, m_totals = tr_totals t,
        m_client_info = cr_client_info c, m_credit_check = kr_credit_check k\<rparr>])"
proof -
  have ne: "ms \<noteq> []" using perm_kinds(3)[OF assms] by auto
  show ?thesis
    using deliver_all_distinct[of ms merger_init] perm_kinds(1,2)[OF assms] ne
    by (simp add: filled_init fold_store_perm[OF assms] merged_of_def)
qed

lemma deliver_all_append:
  "deliver_all self (xs @ ys) =
     (let (self', out) = deliver_all self xs; (self'', outs) = deliver_all self' ys
      in (self'', out @ outs))"
  by (induction xs arbitrary: self) (simp_all add: split_beta Let_def)

lemma fires_needs_all:
  "snd (deliver_all self ms) \<noteq> [] \<Longrightarrow> filled self \<union> kind_of ` set ms = UNIV"
proof (induction ms arbitrary: self)
  case Nil
  then show ?case by simp
next
  case (Cons m ms)
  show ?case
  proof (cases "filled (store m self) = UNIV")
    case True
    then show ?thesis by (auto simp: filled_store)
  next
    case False
    then have "snd (deliver_all (store m self) ms) \<noteq> []"
      using Cons.prems by (simp add: merger_handle_store check_incomplete split_beta)
    from Cons.IH[OF this] show ?thesis by (auto simp: filled_store)
  qed
qed

lemma kinds_present:
  assumes "kind_of ` set ms = UNIV"
  shows "(\<exists>t. MTotals t \<in> set ms) \<and> (\<exists>c. MClient c \<in> set ms) \<and>
         (\<exists>k. MCredit k \<in> set ms) \<and> (\<exists>d. MOriginal d \<in> set ms)"
proof -
  have "\<exists>m \<in> set ms. kind_of m = x" for x
    using assms by (metis UNIV_I imageE)
  from this[of KTotals] this[of KClient] this[of KCredit] this[of KOriginal]
  show ?thesis
    by (metis kind_of.elims msg_kind.distinct)
qed

lemma prefix_silent:
  assumes "mset ms = mset [MOriginal d, MTotals t, MClient c, MCredit k]" and "n < length ms"
  shows "snd (deliver_all merger_init (take n ms)) = []"
proof -
  have d: "distinct (map kind_of (take n ms))"
    using perm_kinds(1)[OF assms(1)] by (simp add: take_map[symmetric])
  have "card (kind_of ` set (take n ms)) \<le> length (take n ms)"
    by (metis card_image_le card_length le_trans List.finite_set)
  also have "\<dots> < 4" using assms(2) perm_kinds(3)[OF assms(1)] by simp
  finally have "kind_of ` set (take n ms) \<noteq> UNIV"
    by (auto simp: UNIV_msg_kind)
  then show ?thesis
    using deliver_all_distinct[OF d, of merger_init] by (simp add: filled_init)
qed

text \<open>
  Claim C2. In a run the merger receives the original data and the three results, one
  message each, in some order (the order stands for how long each upstream handler
  takes). Whatever the order, the merging step fires exactly once in the run, and not
  before all four have been delivered: no proper prefix of the arrivals makes it
  fire. More generally, starting from a fresh merger, no sequence of arrivals at all
  makes it fire unless a totals result, a client result, a credit result and the
  original data are all among them.
\<close>

theorem merge_fires_exactly_once:
  assumes "mset ms = mset [MOriginal d, MTotals t, MClient c, MCredit k]"
  shows "length (snd (deliver_all merger_init ms)) = 1 \<and>
         (\<forall>n < length ms. snd (deliver_all merger_init (take n ms)) = []) \<and>
         (\<forall>ms'. snd (deliver_all merger_init ms') \<noteq> [] \<longrightarrow>
            (\<exists>t'. MTotals t' \<in> set ms') \<and> (\<exists>c'. MClient c' \<in> set ms') \<and>
            (\<exists>k'. MCredit k' \<in> set ms') \<and> (\<exists>d'. MOriginal d' \<in> set ms'))"
proof -
  have once: "length (snd (deliver_all merger_init ms)) = 1"
    by (simp add: deliver_all_run[OF assms])
  have before: "snd (deliver_all merger_init (take n ms)) = []" if "n < length ms" for n
    using assms that by (rule prefix_silent)
  have never: "(\<exists>t'. MTotals t' \<in> set ms') \<and> (\<exists>c'. MClient c' \<in> set ms') \<and>
            (\<exists>k'. MCredit k' \<in> set ms') \<and> (\<exists>d'. MOriginal d' \<in> set ms')"
    if "snd (deliver_all merger_init ms') \<noteq> []" for ms'
  proof -
    have "kind_of ` set ms' = UNIV"
      using fires_needs_all[of merger_init ms'] that by (simp add: filled_init)
    then show ?thesis by (rule kinds_present)
  qed
  show ?thesis using once before never by blast
qed

theorem merge_fires_exactly_once_witness:
  "mset [MCredit (check_credit data_A), MOriginal data_A, MClient (prepare_client data_A),
         MTotals (calculate data_A)] = mset (merger_inbox data_A) \<and>
   length (snd (deliver_all merger_init
     [MCredit (check_credit data_A), MOriginal data_A, MClient (prepare_client data_A),
      MTotals (calculate data_A)])) = 1 \<and>
   snd (deliver_all merger_init
     (take 3 [MCredit (check_credit data_A), MOriginal data_A, MClient (prepare_client data_A),
      MTotals (calculate data_A)])) = []"
proof -
  let ?ms = "[MCredit (check_credit data_A), MOriginal data_A, MClient (prepare_client data_A),
         MTotals (calculate data_A)]"
  have p: "mset ?ms = mset [MOriginal data_A, MTotals (calculate data_A),
           MClient (prepare_client data_A), MCredit (check_credit data_A)]"
    by simp
  from merge_fires_exactly_once[OF p] have
    "length (snd (deliver_all merger_init ?ms)) = 1"
    "3 < length ?ms \<longrightarrow> snd (deliver_all merger_init (take 3 ?ms)) = []"
    by blast+
  with p show ?thesis by (simp add: merger_inbox_def)
qed

text \<open>
  Claim C3. For every arrival order of the four messages of a run the merged result is
  the same: two orders of the same four messages make the merger send the same
  single message, built from the original data's invoice and configuration and the
  three results.
\<close>

theorem merge_result_order_independent:
  assumes "mset ms1 = mset [MOriginal d, MTotals t, MClient c, MCredit k]"
      and "mset ms2 = mset ms1"
  shows "snd (deliver_all merger_init ms1) = snd (deliver_all merger_init ms2) \<and>
         snd (deliver_all merger_init ms1) =
           [\<lparr>m_invoice = iwc_invoice d, m_config = iwc_config d, m_totals = tr_totals t,
             m_client_info = cr_client_info c, m_credit_check = kr_credit_check k\<rparr>]"
  using deliver_all_run[OF assms(1)] deliver_all_run[of ms2 d t c k] assms by simp

theorem merge_result_order_independent_witness:
  "mset [MCredit (check_credit data_A), MOriginal data_A, MClient (prepare_client data_A),
         MTotals (calculate data_A)] = mset (merger_inbox data_A) \<and>
   mset [MTotals (calculate data_A), MClient (prepare_client data_A),
         MCredit (check_credit data_A), MOriginal data_A] =
     mset [MCredit (check_credit data_A), MOriginal data_A, MClient (prepare_client data_A),
           MTotals (calculate data_A)] \<and>
   snd (deliver_all merger_init
     [MCredit (check_credit data_A), MOriginal data_A, MClient (prepare_client data_A),
      MTotals (calculate data_A)]) =
   snd (deliver_all merger_init
     [MTotals (calculate data_A), MClient (prepare_client data_A),
      MCredit (check_credit data_A), MOriginal data_A])"
proof -
  have p1: "mset [MCredit (check_credit data_A), MOriginal data_A, MClient (prepare_client data_A),
         MTotals (calculate data_A)] =
     mset [MOriginal data_A, MTotals (calculate data_A), MClient (prepare_client data_A),
           MCredit (check_credit data_A)]" by simp
  have p2: "mset [MTotals (calculate data_A), MClient (prepare_client data_A),
         MCredit (check_credit data_A), MOriginal data_A] =
     mset [MCredit (check_credit data_A), MOriginal data_A, MClient (prepare_client data_A),
           MTotals (calculate data_A)]" by simp
  have "snd (deliver_all merger_init
     [MCredit (check_credit data_A), MOriginal data_A, MClient (prepare_client data_A),
      MTotals (calculate data_A)]) =
   snd (deliver_all merger_init
     [MTotals (calculate data_A), MClient (prepare_client data_A),
      MCredit (check_credit data_A), MOriginal data_A])"
    using merge_result_order_independent[OF p1 p2] by blast
  with p1 p2 show ?thesis by (simp add: merger_inbox_def)
qed

text \<open>
  Claim C4, as stated, asks for buffered state keyed by run, so that messages of one
  run are never consumed by another run's merge and every run's barrier is released
  once. The merger has four attributes and no key. With two runs in flight at one
  merger (both originals arrive, then the results of run A, then those of run B) the
  only merge sent carries run B's invoice with run A's totals, client information and
  credit check, and run B's own results stay buffered without a release.
\<close>

theorem merger_mixes_interleaved_runs:
  "deliver_all merger_init
     [MOriginal data_A, MOriginal data_B,
      MTotals (calculate data_A), MClient (prepare_client data_A), MCredit (check_credit data_A),
      MTotals (calculate data_B), MClient (prepare_client data_B), MCredit (check_credit data_B)] =
   (\<lparr>totals_result = Some (calculate data_B), client_result = Some (prepare_client data_B),
     credit_result = Some (check_credit data_B), original_data = None\<rparr>,
    [\<lparr>m_invoice = inv_100, m_config = default_config,
      m_totals = calculate_invoice_totals inv_6000 default_config,
      m_client_info = cr_client_info (prepare_client data_A),
      m_credit_check = kr_credit_check (check_credit data_A)\<rparr>])"
  by (simp add: merge_totals_def merge_client_def merge_credit_def store_original_def
      check_and_merge_def merger_init_def data_A_def data_B_def calculate_def)

text \<open>
  Claim C4, amended. The buffer is one set of four attributes per merger object, not
  keyed by run. A run alone at the merger (its four messages in any order) releases
  it once and leaves it reset to the initial state, so that the messages of a run
  arriving after the previous run has been merged are merged among themselves only.
\<close>

theorem merger_reset_between_runs:
  assumes "mset ms1 = mset [MOriginal d1, MTotals t1, MClient c1, MCredit k1]"
      and "mset ms2 = mset [MOriginal d2, MTotals t2, MClient c2, MCredit k2]"
  shows "fst (deliver_all merger_init ms1) = merger_init \<and>
         deliver_all merger_init (ms1 @ ms2) =
           (merger_init,
            [\<lparr>m_invoice = iwc_invoice d1, m_config = iwc_config d1, m_totals = tr_totals t1,
              m_client_info = cr_client_info c1, m_credit_check = kr_credit_check k1\<rparr>,
             \<lparr>m_invoice = iwc_invoice d2, m_config = iwc_config d2, m_totals = tr_totals t2,
              m_client_info = cr_client_info c2, m_credit_check = kr_credit_check k2\<rparr>])"
  by (simp add: deliver_all_append deliver_all_run[OF assms(1)] deliver_all_run[OF assms(2)])

theorem merger_reset_between_runs_witness:
  "mset [MCredit (check_credit data_A), MOriginal data_A, MClient (prepare_client data_A),
         MTotals (calculate data_A)] =
     mset [MOriginal data_A, MTotals (calculate data_A), MClient (prepare_client data_A),
           MCredit (check_credit data_A)] \<and>
   mset [MOriginal data_B, MClient (prepare_client data_B), MTotals (calculate data_B),
         MCredit (check_credit data_B)] =
     mset [MOriginal data_B, MTotals (calculate data_B), MClient (prepare_client data_B),
           MCredit (check_credit data_B)] \<and>
   map (\<lambda>m. invoice_id (m_invoice m))
     (snd (deliver_all merger_init
       ([MCredit (check_credit data_A), MOriginal data_A, MClient (prepare_client data_A),
         MTotals (calculate data_A)] @
        [MOriginal data_B, MClient (prepare_client data_B), MTotals (calculate data_B),
         MCredit (check_credit data_B)]))) = [''INV-001'', ''INV-002'']"
proof -
  have p1: "mset [MCredit (check_credit data_A), MOriginal data_A, MClient (prepare_client data_A),
         MTotals (calculate data_A)] =
     mset [MOriginal data_A, MTotals (calculate data_A), MClient (prepare_client data_A),
           MCredit (check_credit data_A)]" by simp
  have p2: "mset [MOriginal data_B, MClient (prepare_client data_B), MTotals (calculate data_B),
         MCredit (check_credit data_B)] =
     mset [MOriginal data_B, MTotals (calculate data_B), MClient (prepare_client data_B),
           MCredit (check_credit data_B)]" by simp
  from merger_reset_between_runs[OF p1 p2] p1 p2 show ?thesis
    by (simp add: data_A_def data_B_def inv_6000_def inv_100_def)
qed

subsection \<open>The selected invoice\<close>

lemma next_invoice_id:
  "next_invoice all_invoices sel = Inr iv \<Longrightarrow> invoice_id iv = sel"
  by (auto simp: next_invoice_def find_Some_iff split: option.splits)

lemma read_100:
  "read_invoice_data initial_globals default_config [inv_6000, inv_100] [Some 2] =
     Inr (\<lparr>selected_invoice_id = Some ''INV-002''\<rparr>, (default_config, inv_100))"
  by (simp add: read_invoice_data_def next_invoice_def initial_globals_def inv_6000_def inv_100_def)

lemma dispatch_100:
  "dispatch initial_globals default_config [inv_6000, inv_100] [Some 2] =
     Inr (\<lparr>selected_invoice_id = Some ''INV-002''\<rparr>,
          \<lparr>iwc_invoice = inv_100, iwc_config = default_config\<rparr>)"
  by (simp add: dispatch_def next_invoice_def initial_globals_def inv_6000_def inv_100_def)

text \<open>
  Claim C7, as stated, says that no handler writes module-global state to record the
  selection. \<open>read_invoice_data\<close> does: the module's \<open>selected_invoice_id\<close> is
  \<open>None\<close> before and the selected id after, and a handler of a later run
  (\<open>dispatch\<close> is written the same way) starts with the value the earlier run left
  and overwrites it.
\<close>

theorem handler_writes_module_global:
  "selected_invoice_id initial_globals = None \<and>
   read_invoice_data initial_globals default_config [inv_6000, inv_100] [Some 2] =
     Inr (\<lparr>selected_invoice_id = Some ''INV-002''\<rparr>, (default_config, inv_100)) \<and>
   dispatch \<lparr>selected_invoice_id = Some ''INV-002''\<rparr> default_config [inv_6000, inv_100] [Some 1] =
     Inr (\<lparr>selected_invoice_id = Some ''INV-001''\<rparr>,
          \<lparr>iwc_invoice = inv_6000, iwc_config = default_config\<rparr>)"
proof -
  have "dispatch \<lparr>selected_invoice_id = Some ''INV-002''\<rparr> default_config [inv_6000, inv_100] [Some 1] =
     Inr (\<lparr>selected_invoice_id = Some ''INV-001''\<rparr>,
          \<lparr>iwc_invoice = inv_6000, iwc_config = default_config\<rparr>)"
    by (simp add: dispatch_def next_invoice_def inv_6000_def inv_100_def)
  moreover have "selected_invoice_id initial_globals = None"
    by (simp add: initial_globals_def)
  ultimately show ?thesis using read_100 by blast
qed

text \<open>
  Claim C7, amended. The selecting handlers (\<open>read_invoice_data\<close>,
  \<open>Dispatcher.dispatch\<close>) assign the selected id to the module global
  \<open>selected_invoice_id\<close> and also thread the selection explicitly: the message they
  send carries the selected invoice, whose id is the one stored in the global. What
  they send (or the error they raise) does not depend on the value the global had
  before, so a run cannot observe an earlier run's selection through it.
\<close>

theorem selection_written_to_global_and_threaded:
  "(read_invoice_data g config all_invoices inp = Inr (g', (cfg, iv)) \<longrightarrow>
      selected_invoice_id g' = Some (invoice_id iv) \<and> cfg = config) \<and>
   (dispatch g config all_invoices inp = Inr (g'', data) \<longrightarrow>
      selected_invoice_id g'' = Some (invoice_id (iwc_invoice data)) \<and> iwc_config data = config) \<and>
   map_sum id snd (read_invoice_data g1 config all_invoices inp) =
     map_sum id snd (read_invoice_data g2 config all_invoices inp) \<and>
   map_sum id snd (dispatch g1 config all_invoices inp) =
     map_sum id snd (dispatch g2 config all_invoices inp)"
proof -
  have a: "selected_invoice_id g' = Some (invoice_id iv) \<and> cfg = config"
    if "read_invoice_data g config all_invoices inp = Inr (g', (cfg, iv))"
    using that
    by (auto simp: read_invoice_data_def Let_def dest: next_invoice_id split: sum.splits)
  have b: "selected_invoice_id g'' = Some (invoice_id (iwc_invoice data)) \<and> iwc_config data = config"
    if "dispatch g config all_invoices inp = Inr (g'', data)"
    using that
    by (auto simp: dispatch_def Let_def dest: next_invoice_id split: sum.splits)
  have c: "map_sum id snd (read_invoice_data g1 config all_invoices inp) =
     map_sum id snd (read_invoice_data g2 config all_invoices inp)"
    by (simp add: read_invoice_data_def Let_def split: sum.splits)
  have d: "map_sum id snd (dispatch g1 config all_invoices inp) =
     map_sum id snd (dispatch g2 config all_invoices inp)"
    by (simp add: dispatch_def Let_def split: sum.splits)
  show ?thesis using a b c d by blast
qed

theorem selection_written_to_global_and_threaded_witness:
  "read_invoice_data initial_globals default_config [inv_6000, inv_100] [Some 2] =
     Inr (\<lparr>selected_invoice_id = Some ''INV-002''\<rparr>, (default_config, inv_100)) \<and>
   dispatch initial_globals default_config [inv_6000, inv_100] [Some 2] =
     Inr (\<lparr>selected_invoice_id = Some ''INV-002''\<rparr>,
          \<lparr>iwc_invoice = inv_100, iwc_config = default_config\<rparr>) \<and>
   selected_invoice_id \<lparr>selected_invoice_id = Some ''INV-002''\<rparr> = Some (invoice_id inv_100)"
  using selection_written_to_global_and_threaded
    [of initial_globals default_config "[inv_6000, inv_100]" "[Some 2]"
        "\<lparr>selected_invoice_id = Some ''INV-002''\<rparr>" default_config inv_100
        "\<lparr>selected_invoice_id = Some ''INV-002''\<rparr>"
        "\<lparr>iwc_invoice = inv_100, iwc_config = default_config\<rparr>"]
    read_100 dispatch_100
  by blast

subsection \<open>The interactive workflow\<close>




text \<open>
  The state the requester receives along the edge from the tax processor is the one
  that processor builds: its discount amount is the constant 480 of the source, so on
  the chain as wired the requester asks for a confirmation.
\<close>

lemma tax_processor_discount_constant:
  "st_discount_amount (snd (process_tax_response response ctx)) = 480 \<and>
   st_subtotal (snd (process_tax_response response ctx)) = 6000 \<and>
   st_tax_amount (snd (process_tax_response response ctx)) = tq_current_value response \<and>
   tax_confirmed (snd (process_tax_response response ctx))"
  by (simp add: process_tax_response_def Let_def)

lemma discount_requested_after_tax_processor:
  "\<exists>ctx' request.
     request_discount_confirmation (snd (process_tax_response response ctx)) ctx1 =
       (ctx', PDiscountConfirmationRequest request) \<and> dq_current_value request = 480"
  by (simp add: request_discount_confirmation_def process_tax_response_def Let_def)





end
